theory Spec2Isabelle
  imports Complex_Main "HOL-Library.Product_Lexorder"
begin

section \<open>Values of the Python program\<close>

text \<open>
  A \<open>datetime.date\<close> is its proleptic ordinal (a day number), so that
  \<open>(a - b).days\<close> is the difference of two integers and \<open>date.today()\<close> is an
  explicit argument \<open>today\<close> of every operation.  A \<open>datetime.time\<close> is the number
  of microseconds since midnight.  Python floats are rationals (no NaN, no
  infinities), Python strings are lists of 8-bit characters whose letters are
  case-mapped in the ASCII range only.
\<close>

type_synonym date = int
type_synonym time_of_day = nat

definition isspace :: "char \<Rightarrow> bool" where
  "isspace c \<longleftrightarrow> (of_char c :: nat) \<in> set [9, 10, 11, 12, 13, 28, 29, 30, 31, 32]"

definition strip :: "string \<Rightarrow> string" where
  \<comment> \<open>\<open>str.strip()\<close>\<close>
  "strip s = rev (dropWhile isspace (rev (dropWhile isspace s)))"

definition lower_char :: "char \<Rightarrow> char" where
  "lower_char c = (let n = (of_char c :: nat) in if 65 \<le> n \<and> n \<le> 90 then char_of (n + 32) else c)"

definition upper_char :: "char \<Rightarrow> char" where
  "upper_char c = (let n = (of_char c :: nat) in if 97 \<le> n \<and> n \<le> 122 then char_of (n - 32) else c)"

definition lower :: "string \<Rightarrow> string" where
  \<comment> \<open>\<open>str.lower()\<close>\<close>
  "lower s = map lower_char s"

definition upper :: "string \<Rightarrow> string" where
  \<comment> \<open>\<open>str.upper()\<close>\<close>
  "upper s = map upper_char s"

definition after_last_at :: "string \<Rightarrow> string" where
  \<comment> \<open>\<open>s.split('@')[-1]\<close>\<close>
  "after_last_at s = rev (takeWhile (\<lambda>c. c \<noteq> CHR ''@'') (rev s))"

definition truthy_str :: "string option \<Rightarrow> bool" where
  \<comment> \<open>\<open>if s:\<close> for an optional string: neither \<open>None\<close> nor empty\<close>
  "truthy_str s \<longleftrightarrow> (case s of None \<Rightarrow> False | Some x \<Rightarrow> x \<noteq> [])"

definition truthy_int :: "int option \<Rightarrow> bool" where
  \<comment> \<open>\<open>if n:\<close> for an optional integer: neither \<open>None\<close> nor zero\<close>
  "truthy_int n \<longleftrightarrow> (case n of None \<Rightarrow> False | Some x \<Rightarrow> x \<noteq> 0)"

definition provided :: "'a option \<Rightarrow> ('a \<Rightarrow> bool) \<Rightarrow> bool" where
  \<comment> \<open>\<open>x is not None and P(x)\<close>; for a date also \<open>x and P(x)\<close>, a date being always true\<close>
  "provided x P \<longleftrightarrow> (case x of None \<Rightarrow> False | Some v \<Rightarrow> P v)"

definition strip_or_None :: "string option \<Rightarrow> string option" where
  \<comment> \<open>\<open>s.strip() if s else None\<close>\<close>
  "strip_or_None s = (case s of None \<Rightarrow> None | Some x \<Rightarrow> if x = [] then None else Some (strip x))"

definition upper_or_None :: "string option \<Rightarrow> string option" where
  \<comment> \<open>\<open>s.upper() if s else None\<close>\<close>
  "upper_or_None s = (case s of None \<Rightarrow> None | Some x \<Rightarrow> if x = [] then None else Some (upper x))"

definition duration_mins :: "time_of_day \<Rightarrow> time_of_day \<Rightarrow> rat" where
  \<comment> \<open>\<open>(datetime.combine(d, end) - datetime.combine(d, start)).total_seconds() / 60\<close>\<close>
  "duration_mins start_time end_time = (of_nat end_time - of_nat start_time) / 60000000"

definition py_int :: "rat \<Rightarrow> int" where
  \<comment> \<open>\<open>int(x)\<close> truncates towards zero\<close>
  "py_int x = (if x < 0 then - \<lfloor>- x\<rfloor> else \<lfloor>x\<rfloor>)"

section \<open>The tables (\<open>src/models\<close>)\<close>

record Member =
  M_MemberID :: int
  M_FirstName :: string
  M_LastName :: string
  M_DateOfBirth :: "date option"
  M_Gender :: "string option"
  M_Email :: string
  M_Phone :: "string option"
  M_Address :: "string option"
  M_JoinDate :: "date option"
  M_MembershipStatus :: "string option"

record Trainer =
  T_TrainerID :: int
  T_FirstName :: string
  T_LastName :: string
  T_Email :: string
  T_Specialty :: "string option"

record AdminStaff =
  A_AdminID :: int
  A_FirstName :: string
  A_LastName :: string
  A_Email :: string
  A_Role :: "string option"

record Room =
  R_RoomID :: int
  R_RoomNumber :: string
  R_RoomCapacity :: "int option"
  R_RoomType :: "string option"
  R_AccessPermissions :: "string option"

record PersonalTrainingSession =
  S_SessionID :: int
  S_TrainerID :: int
  S_MemberID :: int
  S_RoomID :: "int option"
  S_SessionDate :: date
  S_StartTime :: time_of_day
  S_EndTime :: time_of_day
  S_DurationMinutes :: "int option"
  S_SessionType :: "string option"
  S_MaxCapacity :: "int option"
  S_CurrentEnrollment :: "int option"
  S_Notes :: "string option"

record HealthMetric =
  H_HealthMetricID :: int
  H_MemberID :: int
  H_RecordedDate :: date
  H_Height :: "rat option"
  H_Weight :: "rat option"
  H_BodyFatPercentage :: "rat option"
  H_RestingHeartRate :: "int option"
  H_Notes :: "string option"

record FitnessGoal =
  G_GoalID :: int
  G_MemberID :: int
  G_GoalType :: "string option"
  G_TargetBodyWeight :: "rat option"
  G_TargetBodyFatPercentage :: "rat option"
  G_SetDate :: "date option"
  G_TargetDate :: "date option"
  G_GoalStatus :: "string option"
  G_Notes :: "string option"

record Invoice =
  I_InvoiceID :: int
  I_InvoiceNumber :: string
  I_PayerID :: int
  I_SessionID :: "int option"
  I_InvoiceDate :: date
  I_DueDate :: date
  I_Amount :: rat
  I_PaymentMethod :: "string option"
  I_PaymentStatus :: "string option"
  I_ServiceDescription :: "string option"
  I_PaidDate :: "date option"

record MaintenanceIssue =
  MI_IssueID :: int
  MI_RoomID :: int
  MI_AdminID :: int
  MI_IssueDescription :: string
  MI_EquipmentName :: "string option"
  MI_ReportedDate :: date
  MI_Priority :: "string option"
  MI_Status :: "string option"
  MI_AssignedRepairDate :: "date option"
  MI_ResolutionDate :: "date option"
  MI_ResolutionNotes :: "string option"

section \<open>The store and the ORM session\<close>

text \<open>
  The argument \<open>db\<close> of every operation is one SQLAlchemy session
  (\<open>SessionLocal\<close>, \<open>autoflush=False\<close>), which \<open>cli.py\<close> and
  \<open>example_presentation.py\<close> create once and hand to every call.  Its state is the
  rows of the nine tables, in insertion order, and the \<open>Member\<close> objects whose
  attributes were assigned but not yet flushed (\<open>Member_dirty\<close>): only
  \<open>update_profile\<close> assigns attributes outside its \<open>try\<close> block, so no other
  table needs that layer.  \<open>.first()\<close> is the first matching row of the table.
  Of the constraints the store enforces at commit time, the uniqueness of
  \<open>Member.Email\<close> and of \<open>Invoice.InvoiceNumber\<close> are modelled; column widths
  and numeric ranges are not.
\<close>

record db =
  Member_table :: "Member list"
  Trainer_table :: "Trainer list"
  AdminStaff_table :: "AdminStaff list"
  Room_table :: "Room list"
  Session_table :: "PersonalTrainingSession list"
  HealthMetric_table :: "HealthMetric list"
  FitnessGoal_table :: "FitnessGoal list"
  Invoice_table :: "Invoice list"
  MaintenanceIssue_table :: "MaintenanceIssue list"
  Member_dirty :: "Member list"

definition next_id :: "int list \<Rightarrow> int" where
  \<comment> \<open>the autoincrement key of a new row\<close>
  "next_id ids = fold max ids 0 + 1"

definition flush_Member :: "Member list \<Rightarrow> Member \<Rightarrow> Member" where
  "flush_Member dirty row =
     (case find (\<lambda>m. M_MemberID m = M_MemberID row) dirty of None \<Rightarrow> row | Some obj \<Rightarrow> obj)"

definition commit :: "db \<Rightarrow> db" where
  \<comment> \<open>\<open>db.commit()\<close>: pending attribute changes are written, then nothing is pending\<close>
  "commit s = s\<lparr>Member_table := map (flush_Member (Member_dirty s)) (Member_table s), Member_dirty := []\<rparr>"

definition rollback :: "db \<Rightarrow> db" where
  \<comment> \<open>\<open>db.rollback()\<close>: pending attribute changes are dropped\<close>
  "rollback s = s\<lparr>Member_dirty := []\<rparr>"

definition load_Member :: "db \<Rightarrow> int \<Rightarrow> Member option" where
  \<comment> \<open>\<open>db.query(Member).filter(Member.MemberID == member_id).first()\<close>: the row is found
      in the table, the object handed back is the session's own when it has one\<close>
  "load_Member s member_id =
     (case find (\<lambda>m. M_MemberID m = member_id) (Member_table s) of
        None \<Rightarrow> None
      | Some row \<Rightarrow> Some (flush_Member (Member_dirty s) row))"

definition setattr_Member :: "db \<Rightarrow> Member \<Rightarrow> db" where
  \<comment> \<open>an attribute assignment on a loaded \<open>Member\<close>: the object with its new value is pending\<close>
  "setattr_Member s obj =
     s\<lparr>Member_dirty := obj # filter (\<lambda>m. M_MemberID m \<noteq> M_MemberID obj) (Member_dirty s)\<rparr>"

section \<open>Errors\<close>

text \<open>
  Every failure of the operations is a Python \<open>ValueError\<close>; the constructors keep
  apart the messages and carry the values the message interpolates.
\<close>

datatype ValueError =
    Invalid_Input string
  | Not_Found string int
  | Email_Exists string
  | Invoice_Number_Exists string
  | Trainer_Conflict int time_of_day time_of_day
  | Room_Conflict int time_of_day time_of_day
  | Member_Conflict int
  | Slot_Conflict int time_of_day time_of_day
  | Room_Booked int time_of_day date
  | Room_Already_Assigned int
  | Capacity_Exceeds_Room int int
  | Session_Not_Of_Member int int
  | Closed_Issue
  | Resolved_Issue
  | Already_Paid int

section \<open>Member operations (\<open>src/app/member_functions.py\<close>)\<close>

definition schedule_pt_session ::
  "date \<Rightarrow> db \<Rightarrow> int \<Rightarrow> int \<Rightarrow> date \<Rightarrow> time_of_day \<Rightarrow> time_of_day \<Rightarrow> int option \<Rightarrow> string \<Rightarrow>
   int option \<Rightarrow> int option \<Rightarrow> string option \<Rightarrow> (ValueError + PersonalTrainingSession) \<times> db"
where
  "schedule_pt_session today s member_id trainer_id session_date start_time end_time room_id
     session_type duration_minutes max_capacity notes =
   (if member_id \<le> 0 then (Inl (Invalid_Input ''Member ID must be a positive integer.''), s)
    else if trainer_id \<le> 0 then (Inl (Invalid_Input ''Trainer ID must be a positive integer.''), s)
    else if provided room_id (\<lambda>r. r \<le> 0)
      then (Inl (Invalid_Input ''Room ID must be a positive integer if provided.''), s)
    else if session_date < today then (Inl (Invalid_Input ''Session date cannot be in the past.''), s)
    else if session_date - today > 365
      then (Inl (Invalid_Input ''Session date cannot be more than 1 year in the future.''), s)
    else if start_time \<ge> end_time then (Inl (Invalid_Input ''Start time must be before end time.''), s)
    else if duration_mins start_time end_time < 15
      then (Inl (Invalid_Input ''Session duration must be at least 15 minutes.''), s)
    else if duration_mins start_time end_time > 480
      then (Inl (Invalid_Input ''Session duration cannot exceed 8 hours.''), s)
    else if session_type \<notin> set [''Personal Training'', ''Group Class'']
      then (Inl (Invalid_Input ''Session type must be one of: [Personal Training, Group Class]''), s)
    else if session_type = ''Group Class'' \<and> (max_capacity = None \<or> provided max_capacity (\<lambda>c. c \<le> 0))
      then (Inl (Invalid_Input ''Group classes must have a positive max capacity.''), s)
    else if session_type = ''Group Class'' \<and> provided max_capacity (\<lambda>c. c > 100)
      then (Inl (Invalid_Input ''Max capacity cannot exceed 100.''), s)
    else if find (\<lambda>m. M_MemberID m = member_id) (Member_table s) = None
      then (Inl (Not_Found ''Member'' member_id), s)
    else if find (\<lambda>t. T_TrainerID t = trainer_id) (Trainer_table s) = None
      then (Inl (Not_Found ''Trainer'' trainer_id), s)
    else
      (case (if truthy_int room_id
             then (case find (\<lambda>r. Some (R_RoomID r) = room_id) (Room_table s) of
                     None \<Rightarrow> Some (Not_Found ''Room'' (the room_id))
                   | Some room \<Rightarrow>
                       if session_type = ''Group Class'' \<and> truthy_int max_capacity
                          \<and> truthy_int (R_RoomCapacity room)
                          \<and> the max_capacity > the (R_RoomCapacity room)
                       then Some (Capacity_Exceeds_Room (the max_capacity) (the (R_RoomCapacity room)))
                       else None)
             else None) of
         Some e \<Rightarrow> (Inl e, s)
       | None \<Rightarrow>
      (case find (\<lambda>x. S_TrainerID x = trainer_id \<and> S_SessionDate x = session_date
                       \<and> S_StartTime x < end_time \<and> S_EndTime x > start_time) (Session_table s) of
         Some c \<Rightarrow> (Inl (Trainer_Conflict (S_SessionID c) (S_StartTime c) (S_EndTime c)), s)
       | None \<Rightarrow>
      (case (if truthy_int room_id
             then find (\<lambda>x. S_RoomID x = room_id \<and> S_SessionDate x = session_date
                             \<and> S_StartTime x < end_time \<and> S_EndTime x > start_time) (Session_table s)
             else None) of
         Some c \<Rightarrow> (Inl (Room_Conflict (S_SessionID c) (S_StartTime c) (S_EndTime c)), s)
       | None \<Rightarrow>
      (case find (\<lambda>x. S_MemberID x = member_id \<and> S_SessionDate x = session_date
                       \<and> S_StartTime x < end_time \<and> S_EndTime x > start_time) (Session_table s) of
         Some c \<Rightarrow> (Inl (Member_Conflict (S_SessionID c)), s)
       | None \<Rightarrow>
           (let duration = (case duration_minutes of
                              None \<Rightarrow> py_int (duration_mins start_time end_time)
                            | Some d \<Rightarrow> d);
                new_session = \<lparr>S_SessionID = next_id (map S_SessionID (Session_table s)),
                               S_TrainerID = trainer_id, S_MemberID = member_id, S_RoomID = room_id,
                               S_SessionDate = session_date, S_StartTime = start_time,
                               S_EndTime = end_time, S_DurationMinutes = Some duration,
                               S_SessionType = Some session_type, S_MaxCapacity = max_capacity,
                               S_CurrentEnrollment = Some 0, S_Notes = strip_or_None notes\<rparr>
            in (Inr new_session,
                commit (s\<lparr>Session_table := Session_table s @ [new_session]\<rparr>))))))))"

definition register_member ::
  "date \<Rightarrow> db \<Rightarrow> string \<Rightarrow> string \<Rightarrow> string \<Rightarrow> date option \<Rightarrow> string option \<Rightarrow> string option \<Rightarrow>
   string option \<Rightarrow> string \<Rightarrow> (ValueError + Member) \<times> db"
where
  "register_member today s first_name last_name email date_of_birth gender phone address
     membership_status =
   (if first_name = [] \<or> strip first_name = []
      then (Inl (Invalid_Input ''First name is required and cannot be empty.''), s)
    else if last_name = [] \<or> strip last_name = []
      then (Inl (Invalid_Input ''Last name is required and cannot be empty.''), s)
    else if email = [] \<or> strip email = []
      then (Inl (Invalid_Input ''Email is required and cannot be empty.''), s)
    else if CHR ''@'' \<notin> set email \<or> CHR ''.'' \<notin> set (after_last_at email)
      then (Inl (Invalid_Input ''Invalid email format.''), s)
    else if length first_name > 50
      then (Inl (Invalid_Input ''First name cannot exceed 50 characters.''), s)
    else if length last_name > 50
      then (Inl (Invalid_Input ''Last name cannot exceed 50 characters.''), s)
    else if length email > 100
      then (Inl (Invalid_Input ''Email cannot exceed 100 characters.''), s)
    else if provided date_of_birth (\<lambda>d. d > today)
      then (Inl (Invalid_Input ''Date of birth cannot be in the future.''), s)
    else if provided date_of_birth (\<lambda>d. (today - d) div 365 > 120)
      then (Inl (Invalid_Input ''Invalid date of birth (age exceeds reasonable limit).''), s)
    else if provided date_of_birth (\<lambda>d. (today - d) div 365 < 13)
      then (Inl (Invalid_Input ''Member must be at least 13 years old.''), s)
    else if truthy_str gender \<and> upper (the gender) \<notin> set [''M'', ''F'', ''O'', []]
      then (Inl (Invalid_Input ''Gender must be M, F, O, or empty.''), s)
    else if membership_status \<notin> set [''Active'', ''Inactive'', ''Suspended'', ''Cancelled'']
      then (Inl (Invalid_Input ''Membership status must be one of: [Active, Inactive, Suspended, Cancelled]''), s)
    else if find (\<lambda>m. M_Email m = email) (Member_table s) \<noteq> None
      then (Inl (Email_Exists email), s)
    else
      (let new_member = \<lparr>M_MemberID = next_id (map M_MemberID (Member_table s)),
                          M_FirstName = strip first_name, M_LastName = strip last_name,
                          M_DateOfBirth = date_of_birth, M_Gender = upper_or_None gender,
                          M_Email = lower (strip email), M_Phone = strip_or_None phone,
                          M_Address = strip_or_None address, M_JoinDate = Some today,
                          M_MembershipStatus = Some membership_status\<rparr>
       in if find (\<lambda>m. M_Email m = M_Email new_member) (Member_table s) \<noteq> None
          then \<comment> \<open>the unique constraint on \<open>Member.Email\<close>: \<open>IntegrityError\<close> at commit\<close>
               (Inl (Email_Exists email), rollback s)
          else (Inr new_member, commit (s\<lparr>Member_table := Member_table s @ [new_member]\<rparr>))))"

definition update_profile ::
  "date \<Rightarrow> db \<Rightarrow> int \<Rightarrow> string option \<Rightarrow> string option \<Rightarrow> string option \<Rightarrow> string option \<Rightarrow>
   date option \<Rightarrow> string option \<Rightarrow> (ValueError + Member) \<times> db"
where
  "update_profile today s member_id first_name last_name phone address date_of_birth gender =
   (if member_id \<le> 0 then (Inl (Invalid_Input ''Member ID must be a positive integer.''), s)
    else if first_name = None \<and> last_name = None \<and> phone = None \<and> address = None
            \<and> date_of_birth = None \<and> gender = None
      then (Inl (Invalid_Input ''At least one field must be provided for update.''), s)
    else
      (case load_Member s member_id of
         None \<Rightarrow> (Inl (Not_Found ''Member'' member_id), s)
       | Some member \<Rightarrow>
      (case (case first_name of
               None \<Rightarrow> Inr (member, s)
             | Some v \<Rightarrow>
                 if strip v = [] then Inl (Invalid_Input ''First name cannot be empty.'')
                 else if length v > 50 then Inl (Invalid_Input ''First name cannot exceed 50 characters.'')
                 else (let m = member\<lparr>M_FirstName := strip v\<rparr> in Inr (m, setattr_Member s m))) of
         Inl e \<Rightarrow> (Inl e, s)
       | Inr (m1, s1) \<Rightarrow>
      (case (case last_name of
               None \<Rightarrow> Inr (m1, s1)
             | Some v \<Rightarrow>
                 if strip v = [] then Inl (Invalid_Input ''Last name cannot be empty.'')
                 else if length v > 50 then Inl (Invalid_Input ''Last name cannot exceed 50 characters.'')
                 else (let m = m1\<lparr>M_LastName := strip v\<rparr> in Inr (m, setattr_Member s1 m))) of
         Inl e \<Rightarrow> (Inl e, s1)
       | Inr (m2, s2) \<Rightarrow>
      (case (case phone of
               None \<Rightarrow> Inr (m2, s2)
             | Some v \<Rightarrow>
                 if v \<noteq> [] \<and> length v > 20
                 then Inl (Invalid_Input ''Phone number cannot exceed 20 characters.'')
                 else (let m = m2\<lparr>M_Phone := strip_or_None phone\<rparr> in Inr (m, setattr_Member s2 m))) of
         Inl e \<Rightarrow> (Inl e, s2)
       | Inr (m3, s3) \<Rightarrow>
      (case (case address of
               None \<Rightarrow> Inr (m3, s3)
             | Some v \<Rightarrow>
                 if v \<noteq> [] \<and> length v > 200
                 then Inl (Invalid_Input ''Address cannot exceed 200 characters.'')
                 else (let m = m3\<lparr>M_Address := strip_or_None address\<rparr> in Inr (m, setattr_Member s3 m))) of
         Inl e \<Rightarrow> (Inl e, s3)
       | Inr (m4, s4) \<Rightarrow>
      (case (case date_of_birth of
               None \<Rightarrow> Inr (m4, s4)
             | Some d \<Rightarrow>
                 if d > today then Inl (Invalid_Input ''Date of birth cannot be in the future.'')
                 else if (today - d) div 365 > 120 \<or> (today - d) div 365 < 13
                 then Inl (Invalid_Input ''Invalid date of birth.'')
                 else (let m = m4\<lparr>M_DateOfBirth := Some d\<rparr> in Inr (m, setattr_Member s4 m))) of
         Inl e \<Rightarrow> (Inl e, s4)
       | Inr (m5, s5) \<Rightarrow>
      (case (case gender of
               None \<Rightarrow> Inr (m5, s5)
             | Some v \<Rightarrow>
                 if v \<noteq> [] \<and> upper v \<notin> set [''M'', ''F'', ''O'', []]
                 then Inl (Invalid_Input ''Gender must be M, F, O, or empty.'')
                 else (let m = m5\<lparr>M_Gender := upper_or_None gender\<rparr> in Inr (m, setattr_Member s5 m))) of
         Inl e \<Rightarrow> (Inl e, s5)
       | Inr (m6, s6) \<Rightarrow> (Inr m6, commit s6)))))))))"

definition add_fitness_goal ::
  "date \<Rightarrow> db \<Rightarrow> int \<Rightarrow> string \<Rightarrow> rat option \<Rightarrow> rat option \<Rightarrow> date option \<Rightarrow> string \<Rightarrow>
   string option \<Rightarrow> (ValueError + FitnessGoal) \<times> db"
where
  "add_fitness_goal today s member_id goal_type target_body_weight target_body_fat target_date
     goal_status notes =
   (if member_id \<le> 0 then (Inl (Invalid_Input ''Member ID must be a positive integer.''), s)
    else if goal_type = [] \<or> strip goal_type = []
      then (Inl (Invalid_Input ''Goal type is required and cannot be empty.''), s)
    else if length goal_type > 50
      then (Inl (Invalid_Input ''Goal type cannot exceed 50 characters.''), s)
    else if provided target_body_weight (\<lambda>w. w \<le> 0)
      then (Inl (Invalid_Input ''Target body weight must be positive.''), s)
    else if provided target_body_weight (\<lambda>w. w > 1000)
      then (Inl (Invalid_Input ''Target body weight exceeds reasonable limit.''), s)
    else if provided target_body_fat (\<lambda>f. f < 0 \<or> f > 100)
      then (Inl (Invalid_Input ''Target body fat percentage must be between 0 and 100.''), s)
    else if provided target_date (\<lambda>d. d < today)
      then (Inl (Invalid_Input ''Target date cannot be in the past.''), s)
    else if provided target_date (\<lambda>d. d - today > 3650)
      then (Inl (Invalid_Input ''Target date is too far in the future.''), s)
    else if goal_status \<notin> set [''Active'', ''Completed'', ''Cancelled'', ''On Hold'']
      then (Inl (Invalid_Input ''Goal status must be one of: [Active, Completed, Cancelled, On Hold]''), s)
    else if find (\<lambda>m. M_MemberID m = member_id) (Member_table s) = None
      then (Inl (Not_Found ''Member'' member_id), s)
    else if target_body_weight = None \<and> target_body_fat = None
      then (Inl (Invalid_Input ''At least one target (body weight or body fat percentage) must be specified.''), s)
    else
      (let new_goal = \<lparr>G_GoalID = next_id (map G_GoalID (FitnessGoal_table s)),
                        G_MemberID = member_id, G_GoalType = Some (strip goal_type),
                        G_TargetBodyWeight = target_body_weight,
                        G_TargetBodyFatPercentage = target_body_fat, G_SetDate = Some today,
                        G_TargetDate = target_date, G_GoalStatus = Some goal_status,
                        G_Notes = strip_or_None notes\<rparr>
       in (Inr new_goal, commit (s\<lparr>FitnessGoal_table := FitnessGoal_table s @ [new_goal]\<rparr>))))"

definition log_health_metric ::
  "date \<Rightarrow> db \<Rightarrow> int \<Rightarrow> date \<Rightarrow> rat option \<Rightarrow> rat option \<Rightarrow> rat option \<Rightarrow> int option \<Rightarrow>
   string option \<Rightarrow> (ValueError + HealthMetric) \<times> db"
where
  "log_health_metric today s member_id recorded_date height weight body_fat_percentage
     resting_heart_rate notes =
   (if member_id \<le> 0 then (Inl (Invalid_Input ''Member ID must be a positive integer.''), s)
    else if recorded_date > today
      then (Inl (Invalid_Input ''Recorded date cannot be in the future.''), s)
    else if today - recorded_date > 36500
      then (Inl (Invalid_Input ''Recorded date is too far in the past.''), s)
    else if height = None \<and> weight = None \<and> body_fat_percentage = None \<and> resting_heart_rate = None
      then (Inl (Invalid_Input ''At least one health metric (height, weight, body fat, or heart rate) must be provided.''), s)
    else if provided height (\<lambda>h. h \<le> 0)
      then (Inl (Invalid_Input ''Height must be positive.''), s)
    else if provided height (\<lambda>h. h > 300)
      then (Inl (Invalid_Input ''Height exceeds reasonable limit.''), s)
    else if provided weight (\<lambda>w. w \<le> 0)
      then (Inl (Invalid_Input ''Weight must be positive.''), s)
    else if provided weight (\<lambda>w. w > 1000)
      then (Inl (Invalid_Input ''Weight exceeds reasonable limit.''), s)
    else if provided body_fat_percentage (\<lambda>f. f < 0 \<or> f > 100)
      then (Inl (Invalid_Input ''Body fat percentage must be between 0 and 100.''), s)
    else if provided resting_heart_rate (\<lambda>r. r \<le> 0)
      then (Inl (Invalid_Input ''Resting heart rate must be positive.''), s)
    else if provided resting_heart_rate (\<lambda>r. r < 30 \<or> r > 200)
      then (Inl (Invalid_Input ''Resting heart rate must be between 30 and 200 bpm.''), s)
    else if find (\<lambda>m. M_MemberID m = member_id) (Member_table s) = None
      then (Inl (Not_Found ''Member'' member_id), s)
    else
      (let new_metric = \<lparr>H_HealthMetricID = next_id (map H_HealthMetricID (HealthMetric_table s)),
                          H_MemberID = member_id, H_RecordedDate = recorded_date,
                          H_Height = height, H_Weight = weight,
                          H_BodyFatPercentage = body_fat_percentage,
                          H_RestingHeartRate = resting_heart_rate, H_Notes = strip_or_None notes\<rparr>
       in (Inr new_metric, commit (s\<lparr>HealthMetric_table := HealthMetric_table s @ [new_metric]\<rparr>))))"

section \<open>Administrative operations (\<open>src/app/admin_functions.py\<close>)\<close>

definition assign_room_booking ::
  "date \<Rightarrow> db \<Rightarrow> int \<Rightarrow> int \<Rightarrow> (ValueError + PersonalTrainingSession) \<times> db"
where
  "assign_room_booking today s session_id room_id =
   (if session_id \<le> 0 then (Inl (Invalid_Input ''Session ID must be a positive integer.''), s)
    else if room_id \<le> 0 then (Inl (Invalid_Input ''Room ID must be a positive integer.''), s)
    else
      (case find (\<lambda>x. S_SessionID x = session_id) (Session_table s) of
         None \<Rightarrow> (Inl (Not_Found ''Session'' session_id), s)
       | Some session \<Rightarrow>
      if S_SessionDate session < today
        then (Inl (Invalid_Input ''Cannot assign room to a past session.''), s)
      else
      (case find (\<lambda>r. R_RoomID r = room_id) (Room_table s) of
         None \<Rightarrow> (Inl (Not_Found ''Room'' room_id), s)
       | Some room \<Rightarrow>
      if S_RoomID session = Some room_id then (Inl (Room_Already_Assigned room_id), s)
      else if S_SessionType session = Some ''Group Class'' \<and> truthy_int (S_MaxCapacity session)
              \<and> truthy_int (R_RoomCapacity room)
              \<and> the (S_MaxCapacity session) > the (R_RoomCapacity room)
        then (Inl (Capacity_Exceeds_Room (the (S_MaxCapacity session)) (the (R_RoomCapacity room))), s)
      else
      (case find (\<lambda>x. S_RoomID x = Some room_id \<and> S_SessionDate x = S_SessionDate session
                       \<and> S_StartTime x < S_EndTime session \<and> S_EndTime x > S_StartTime session
                       \<and> S_SessionID x \<noteq> session_id) (Session_table s) of
         Some c \<Rightarrow> (Inl (Room_Booked (S_SessionID c) (S_StartTime c) (S_SessionDate c)), s)
       | None \<Rightarrow>
           (Inr (session\<lparr>S_RoomID := Some room_id\<rparr>),
            commit (s\<lparr>Session_table :=
                         map (\<lambda>x. if S_SessionID x = session_id then x\<lparr>S_RoomID := Some room_id\<rparr> else x)
                             (Session_table s)\<rparr>))))))"

definition log_maintenance_issue ::
  "date \<Rightarrow> db \<Rightarrow> int \<Rightarrow> int \<Rightarrow> string \<Rightarrow> string option \<Rightarrow> string \<Rightarrow> date option \<Rightarrow>
   (ValueError + MaintenanceIssue) \<times> db"
where
  "log_maintenance_issue today s room_id admin_id issue_description equipment_name priority
     reported_date =
   (if room_id \<le> 0 then (Inl (Invalid_Input ''Room ID must be a positive integer.''), s)
    else if admin_id \<le> 0 then (Inl (Invalid_Input ''Admin ID must be a positive integer.''), s)
    else if issue_description = [] \<or> strip issue_description = []
      then (Inl (Invalid_Input ''Issue description is required and cannot be empty.''), s)
    else if length issue_description > 1000
      then (Inl (Invalid_Input ''Issue description cannot exceed 1000 characters.''), s)
    else if truthy_str equipment_name \<and> length (the equipment_name) > 100
      then (Inl (Invalid_Input ''Equipment name cannot exceed 100 characters.''), s)
    else if priority \<notin> set [''Low'', ''Medium'', ''High'', ''Critical'']
      then (Inl (Invalid_Input ''Priority must be one of: [Low, Medium, High, Critical]''), s)
    else if provided reported_date (\<lambda>d. d > today)
      then (Inl (Invalid_Input ''Reported date cannot be in the future.''), s)
    else if provided reported_date (\<lambda>d. today - d > 3650)
      then (Inl (Invalid_Input ''Reported date is too far in the past.''), s)
    else if find (\<lambda>r. R_RoomID r = room_id) (Room_table s) = None
      then (Inl (Not_Found ''Room'' room_id), s)
    else if find (\<lambda>a. A_AdminID a = admin_id) (AdminStaff_table s) = None
      then (Inl (Not_Found ''Admin staff'' admin_id), s)
    else
      (let new_issue = \<lparr>MI_IssueID = next_id (map MI_IssueID (MaintenanceIssue_table s)),
                         MI_RoomID = room_id, MI_AdminID = admin_id,
                         MI_IssueDescription = strip issue_description,
                         MI_EquipmentName = strip_or_None equipment_name,
                         MI_ReportedDate = (case reported_date of None \<Rightarrow> today | Some d \<Rightarrow> d),
                         MI_Priority = Some priority, MI_Status = Some ''Open'',
                         MI_AssignedRepairDate = None, MI_ResolutionDate = None,
                         MI_ResolutionNotes = None\<rparr>
       in (Inr new_issue,
           commit (s\<lparr>MaintenanceIssue_table := MaintenanceIssue_table s @ [new_issue]\<rparr>))))"

definition update_maintenance_status ::
  "date \<Rightarrow> db \<Rightarrow> int \<Rightarrow> string option \<Rightarrow> date option \<Rightarrow> date option \<Rightarrow> string option \<Rightarrow>
   (ValueError + MaintenanceIssue) \<times> db"
where
  "update_maintenance_status today s issue_id status assigned_repair_date resolution_date
     resolution_notes =
   (if issue_id \<le> 0 then (Inl (Invalid_Input ''Issue ID must be a positive integer.''), s)
    else if status = None \<and> assigned_repair_date = None \<and> resolution_date = None
            \<and> resolution_notes = None
      then (Inl (Invalid_Input ''At least one field must be provided for update.''), s)
    else
      (case find (\<lambda>i. MI_IssueID i = issue_id) (MaintenanceIssue_table s) of
         None \<Rightarrow> (Inl (Not_Found ''Maintenance issue'' issue_id), s)
       | Some issue \<Rightarrow>
      if truthy_str status \<and> the status \<notin> set [''Open'', ''In Progress'', ''Resolved'', ''Closed'']
        then (Inl (Invalid_Input ''Status must be one of: [Open, In Progress, Resolved, Closed]''), s)
      else if truthy_str status \<and> MI_Status issue = Some ''Closed'' \<and> the status \<noteq> ''Closed''
        then (Inl Closed_Issue, s)
      else if truthy_str status \<and> MI_Status issue = Some ''Resolved''
              \<and> the status \<notin> set [''Resolved'', ''Closed'']
        then (Inl Resolved_Issue, s)
      else if provided assigned_repair_date (\<lambda>a. a < MI_ReportedDate issue)
        then (Inl (Invalid_Input ''Assigned repair date cannot be before reported date.''), s)
      else if provided assigned_repair_date (\<lambda>a. a > today + 7 * 52)
        then (Inl (Invalid_Input ''Assigned repair date cannot be more than 1 year in the future.''), s)
      else if resolution_date \<noteq> None \<and> MI_Status issue \<notin> set [Some ''Resolved'', Some ''Closed'']
        then (Inl (Invalid_Input ''Cannot set resolution date unless status is Resolved or Closed.''), s)
      else if provided resolution_date (\<lambda>r. r < MI_ReportedDate issue)
        then (Inl (Invalid_Input ''Resolution date cannot be before reported date.''), s)
      else if provided resolution_date (\<lambda>r. r > today)
        then (Inl (Invalid_Input ''Resolution date cannot be in the future.''), s)
      else if provided resolution_date (\<lambda>r. provided assigned_repair_date (\<lambda>a. r < a))
        then (Inl (Invalid_Input ''Resolution date cannot be before assigned repair date.''), s)
      else if truthy_str resolution_notes \<and> length (the resolution_notes) > 1000
        then (Inl (Invalid_Input ''Resolution notes cannot exceed 1000 characters.''), s)
      else
        (let i1 = (if truthy_str status then issue\<lparr>MI_Status := status\<rparr> else issue);
             i2 = (if assigned_repair_date \<noteq> None
                   then i1\<lparr>MI_AssignedRepairDate := assigned_repair_date\<rparr> else i1);
             i3 = (if resolution_date \<noteq> None then i2\<lparr>MI_ResolutionDate := resolution_date\<rparr> else i2);
             i4 = (if truthy_str resolution_notes
                   then i3\<lparr>MI_ResolutionNotes := Some (strip (the resolution_notes))\<rparr> else i3)
         in (Inr i4,
             commit (s\<lparr>MaintenanceIssue_table :=
                          map (\<lambda>i. if MI_IssueID i = issue_id then i4 else i)
                              (MaintenanceIssue_table s)\<rparr>)))))"

definition round2 :: "rat \<Rightarrow> rat" where
  \<comment> \<open>\<open>round(x, 2)\<close>: to the nearest hundredth, ties to the even one\<close>
  "round2 x =
     (let y = x * 100; f = \<lfloor>y\<rfloor>; d = y - of_int f
      in of_int (if d < 1 / 2 then f else if d > 1 / 2 then f + 1
                 else if even f then f else f + 1) / 100)"

definition create_invoice ::
  "date \<Rightarrow> db \<Rightarrow> int \<Rightarrow> string \<Rightarrow> date \<Rightarrow> date \<Rightarrow> rat \<Rightarrow> string \<Rightarrow> int option \<Rightarrow> string option \<Rightarrow>
   (ValueError + Invoice) \<times> db"
where
  "create_invoice today s payer_id invoice_number invoice_date due_date amount service_description
     session_id payment_method =
   (if payer_id \<le> 0 then (Inl (Invalid_Input ''Payer ID must be a positive integer.''), s)
    else if invoice_number = [] \<or> strip invoice_number = []
      then (Inl (Invalid_Input ''Invoice number is required and cannot be empty.''), s)
    else if length invoice_number > 50
      then (Inl (Invalid_Input ''Invoice number cannot exceed 50 characters.''), s)
    else if service_description = [] \<or> strip service_description = []
      then (Inl (Invalid_Input ''Service description is required and cannot be empty.''), s)
    else if length service_description > 500
      then (Inl (Invalid_Input ''Service description cannot exceed 500 characters.''), s)
    else if provided session_id (\<lambda>i. i \<le> 0)
      then (Inl (Invalid_Input ''Session ID must be a positive integer if provided.''), s)
    else if invoice_date > today
      then (Inl (Invalid_Input ''Invoice date cannot be in the future.''), s)
    else if today - invoice_date > 3650
      then (Inl (Invalid_Input ''Invoice date is too far in the past.''), s)
    else if due_date < invoice_date
      then (Inl (Invalid_Input ''Due date cannot be before invoice date.''), s)
    else if due_date - invoice_date > 365
      then (Inl (Invalid_Input ''Due date cannot be more than 1 year after invoice date.''), s)
    else if amount \<le> 0 then (Inl (Invalid_Input ''Invoice amount must be positive.''), s)
    else if amount > 1000000
      then (Inl (Invalid_Input ''Invoice amount exceeds maximum limit.''), s)
    else if truthy_str payment_method \<and> length (the payment_method) > 50
      then (Inl (Invalid_Input ''Payment method cannot exceed 50 characters.''), s)
    else if find (\<lambda>m. M_MemberID m = payer_id) (Member_table s) = None
      then (Inl (Not_Found ''Member'' payer_id), s)
    else
      (case (if truthy_int session_id
             then (case find (\<lambda>x. Some (S_SessionID x) = session_id) (Session_table s) of
                     None \<Rightarrow> Some (Not_Found ''Session'' (the session_id))
                   | Some session \<Rightarrow>
                       if S_MemberID session \<noteq> payer_id
                       then Some (Session_Not_Of_Member (the session_id) payer_id) else None)
             else None) of
         Some e \<Rightarrow> (Inl e, s)
       | None \<Rightarrow>
      if find (\<lambda>i. I_InvoiceNumber i = invoice_number) (Invoice_table s) \<noteq> None
        then (Inl (Invoice_Number_Exists invoice_number), s)
      else
        (let new_invoice = \<lparr>I_InvoiceID = next_id (map I_InvoiceID (Invoice_table s)),
                             I_InvoiceNumber = strip invoice_number, I_PayerID = payer_id,
                             I_SessionID = session_id, I_InvoiceDate = invoice_date,
                             I_DueDate = due_date, I_Amount = round2 amount,
                             I_PaymentMethod = strip_or_None payment_method,
                             I_PaymentStatus = Some ''Pending'',
                             I_ServiceDescription = Some (strip service_description),
                             I_PaidDate = None\<rparr>
         in if find (\<lambda>i. I_InvoiceNumber i = I_InvoiceNumber new_invoice) (Invoice_table s) \<noteq> None
            then \<comment> \<open>the unique constraint on \<open>Invoice.InvoiceNumber\<close>: \<open>IntegrityError\<close> at commit\<close>
                 (Inl (Invoice_Number_Exists invoice_number), rollback s)
            else (Inr new_invoice,
                  commit (s\<lparr>Invoice_table := Invoice_table s @ [new_invoice]\<rparr>)))))"

definition record_payment ::
  "date \<Rightarrow> db \<Rightarrow> int \<Rightarrow> string \<Rightarrow> date option \<Rightarrow> (ValueError + Invoice) \<times> db"
where
  "record_payment today s invoice_id payment_method paid_date =
   (if invoice_id \<le> 0 then (Inl (Invalid_Input ''Invoice ID must be a positive integer.''), s)
    else if payment_method = [] \<or> strip payment_method = []
      then (Inl (Invalid_Input ''Payment method is required and cannot be empty.''), s)
    else if length payment_method > 50
      then (Inl (Invalid_Input ''Payment method cannot exceed 50 characters.''), s)
    else if provided paid_date (\<lambda>d. d > today)
      then (Inl (Invalid_Input ''Paid date cannot be in the future.''), s)
    else
      (case find (\<lambda>i. I_InvoiceID i = invoice_id) (Invoice_table s) of
         None \<Rightarrow> (Inl (Not_Found ''Invoice'' invoice_id), s)
       | Some invoice \<Rightarrow>
      if I_PaymentStatus invoice = Some ''Paid'' then (Inl (Already_Paid invoice_id), s)
      else if provided paid_date (\<lambda>d. d < I_InvoiceDate invoice)
        then (Inl (Invalid_Input ''Paid date cannot be before invoice date.''), s)
      else
        (let paid = invoice\<lparr>I_PaymentStatus := Some ''Paid'',
                             I_PaymentMethod := Some (strip payment_method),
                             I_PaidDate := Some (case paid_date of None \<Rightarrow> today | Some d \<Rightarrow> d)\<rparr>
         in (Inr paid,
             commit (s\<lparr>Invoice_table :=
                          map (\<lambda>i. if I_InvoiceID i = invoice_id then paid else i)
                              (Invoice_table s)\<rparr>)))))"

section \<open>Trainer operations (\<open>src/app/trainer_functions.py\<close>)\<close>

record Availability =
  av_trainer_id :: int
  av_date :: date
  av_start :: time_of_day
  av_end :: time_of_day
  av_available :: bool

definition set_availability ::
  "date \<Rightarrow> db \<Rightarrow> int \<Rightarrow> date \<Rightarrow> time_of_day \<Rightarrow> time_of_day \<Rightarrow> (ValueError + Availability) \<times> db"
where
  "set_availability today s trainer_id session_date start_time end_time =
   (if trainer_id \<le> 0 then (Inl (Invalid_Input ''Trainer ID must be a positive integer.''), s)
    else if session_date < today
      then (Inl (Invalid_Input ''Availability date cannot be in the past.''), s)
    else if session_date - today > 365
      then (Inl (Invalid_Input ''Availability date cannot be more than 1 year in the future.''), s)
    else if start_time \<ge> end_time then (Inl (Invalid_Input ''Start time must be before end time.''), s)
    else if duration_mins start_time end_time < 15
      then (Inl (Invalid_Input ''Availability slot must be at least 15 minutes.''), s)
    else if duration_mins start_time end_time > 1440
      then (Inl (Invalid_Input ''Availability slot cannot exceed 24 hours.''), s)
    else if find (\<lambda>t. T_TrainerID t = trainer_id) (Trainer_table s) = None
      then (Inl (Not_Found ''Trainer'' trainer_id), s)
    else
      (case find (\<lambda>x. S_TrainerID x = trainer_id \<and> S_SessionDate x = session_date
                       \<and> S_StartTime x < end_time \<and> S_EndTime x > start_time) (Session_table s) of
         Some c \<Rightarrow> (Inl (Slot_Conflict (S_SessionID c) (S_StartTime c) (S_EndTime c)), s)
       | None \<Rightarrow>
           (Inr \<lparr>av_trainer_id = trainer_id, av_date = session_date, av_start = start_time,
                 av_end = end_time, av_available = True\<rparr>, s)))"

definition view_schedule ::
  "date \<Rightarrow> db \<Rightarrow> int \<Rightarrow> date option \<Rightarrow> (ValueError + PersonalTrainingSession list) \<times> db"
where
  "view_schedule today s trainer_id from_date =
   (if trainer_id \<le> 0 then (Inl (Invalid_Input ''Trainer ID must be a positive integer.''), s)
    else if provided from_date (\<lambda>d. d < 693596)
      then \<comment> \<open>693596 is the ordinal of \<open>date(1900, 1, 1)\<close>\<close>
           (Inl (Invalid_Input ''Date cannot be before 1900.''), s)
    else if provided from_date (\<lambda>d. d - today > 3650)
      then (Inl (Invalid_Input ''Date cannot be more than 10 years in the future.''), s)
    else if find (\<lambda>t. T_TrainerID t = trainer_id) (Trainer_table s) = None
      then (Inl (Not_Found ''Trainer'' trainer_id), s)
    else
      (Inr (sort_key (\<lambda>x. (S_SessionDate x, S_StartTime x))
              (filter (\<lambda>x. S_TrainerID x = trainer_id
                            \<and> S_SessionDate x \<ge> (case from_date of None \<Rightarrow> today | Some d \<Rightarrow> d))
                      (Session_table s))), s))"

definition lookup_member :: "db \<Rightarrow> string \<Rightarrow> (ValueError + unit) \<times> db" where
  \<comment> \<open>The input checks and the effect on the session: \<open>lookup_member\<close> only reads
      (\<open>ilike\<close> queries); the rows it returns are not part of the model.\<close>
  "lookup_member s search_term =
   (if search_term = [] \<or> strip search_term = []
      then (Inl (Invalid_Input ''Search term cannot be empty.''), s)
    else if length search_term > 100
      then (Inl (Invalid_Input ''Search term cannot exceed 100 characters.''), s)
    else (Inr (), s))"

section \<open>Sequences of calls\<close>

text \<open>
  One call of any of the thirteen operations of \<open>src/app\<close>, with its arguments and the
  date on which it is made.
\<close>

datatype operation =
    Register_member string string string "date option" "string option" "string option"
      "string option" string
  | Update_profile int "string option" "string option" "string option" "string option"
      "date option" "string option"
  | Add_fitness_goal int string "rat option" "rat option" "date option" string "string option"
  | Log_health_metric int date "rat option" "rat option" "rat option" "int option" "string option"
  | Schedule_pt_session int int date time_of_day time_of_day "int option" string "int option"
      "int option" "string option"
  | Set_availability int date time_of_day time_of_day
  | View_schedule int "date option"
  | Lookup_member string
  | Assign_room_booking int int
  | Log_maintenance_issue int int string "string option" string "date option"
  | Update_maintenance_status int "string option" "date option" "date option" "string option"
  | Create_invoice int string date date rat string "int option" "string option"
  | Record_payment int string "date option"

fun call :: "date \<Rightarrow> db \<Rightarrow> operation \<Rightarrow> db" where
  "call today s (Register_member a b c d e f g h) = snd (register_member today s a b c d e f g h)"
| "call today s (Update_profile a b c d e f g) = snd (update_profile today s a b c d e f g)"
| "call today s (Add_fitness_goal a b c d e f g) = snd (add_fitness_goal today s a b c d e f g)"
| "call today s (Log_health_metric a b c d e f g) = snd (log_health_metric today s a b c d e f g)"
| "call today s (Schedule_pt_session a b c d e f g h i j) =
     snd (schedule_pt_session today s a b c d e f g h i j)"
| "call today s (Set_availability a b c d) = snd (set_availability today s a b c d)"
| "call today s (View_schedule a b) = snd (view_schedule today s a b)"
| "call today s (Lookup_member a) = snd (lookup_member s a)"
| "call today s (Assign_room_booking a b) = snd (assign_room_booking today s a b)"
| "call today s (Log_maintenance_issue a b c d e f) = snd (log_maintenance_issue today s a b c d e f)"
| "call today s (Update_maintenance_status a b c d e) =
     snd (update_maintenance_status today s a b c d e)"
| "call today s (Create_invoice a b c d e f g h) = snd (create_invoice today s a b c d e f g h)"
| "call today s (Record_payment a b c) = snd (record_payment today s a b c)"


section \<open>A small store for concrete runs\<close>

text \<open>
  One member, trainer, administrator and two rooms; one session of trainer 1 on day 100
  from 10:00 to 11:00 in room 1; one pending invoice; one maintenance issue in progress,
  reported on day 90, with its repair assigned for day 103.
\<close>

definition ex_member :: Member where
  "ex_member = \<lparr>M_MemberID = 1, M_FirstName = ''Alice'', M_LastName = ''Johnson'',
     M_DateOfBirth = None, M_Gender = Some ''F'', M_Email = ''alice.johnson@example.com'',
     M_Phone = None, M_Address = None, M_JoinDate = Some 80,
     M_MembershipStatus = Some ''Active''\<rparr>"

definition ex_trainer :: Trainer where
  "ex_trainer = \<lparr>T_TrainerID = 1, T_FirstName = ''Mike'', T_LastName = ''Stone'',
     T_Email = ''mike.trainer@example.com'', T_Specialty = None\<rparr>"

definition ex_admin :: AdminStaff where
  "ex_admin = \<lparr>A_AdminID = 1, A_FirstName = ''Dana'', A_LastName = ''Reed'',
     A_Email = ''dana.admin@example.com'', A_Role = None\<rparr>"

definition ex_room :: Room where
  "ex_room = \<lparr>R_RoomID = 1, R_RoomNumber = ''101'', R_RoomCapacity = Some 200,
     R_RoomType = None, R_AccessPermissions = None\<rparr>"

definition ex_room2 :: Room where
  "ex_room2 = \<lparr>R_RoomID = 2, R_RoomNumber = ''102'', R_RoomCapacity = Some 10,
     R_RoomType = None, R_AccessPermissions = None\<rparr>"

definition ex_session :: PersonalTrainingSession where
  "ex_session = \<lparr>S_SessionID = 1, S_TrainerID = 1, S_MemberID = 1, S_RoomID = Some 1,
     S_SessionDate = 100, S_StartTime = 36000000000, S_EndTime = 39600000000,
     S_DurationMinutes = Some 60, S_SessionType = Some ''Personal Training'',
     S_MaxCapacity = None, S_CurrentEnrollment = Some 0, S_Notes = None\<rparr>"

definition ex_invoice :: Invoice where
  "ex_invoice = \<lparr>I_InvoiceID = 1, I_InvoiceNumber = ''INV-1'', I_PayerID = 1,
     I_SessionID = None, I_InvoiceDate = 90, I_DueDate = 120, I_Amount = 50,
     I_PaymentMethod = None, I_PaymentStatus = Some ''Pending'',
     I_ServiceDescription = Some ''Training'', I_PaidDate = None\<rparr>"

definition ex_issue :: MaintenanceIssue where
  "ex_issue = \<lparr>MI_IssueID = 1, MI_RoomID = 1, MI_AdminID = 1,
     MI_IssueDescription = ''Treadmill not working properly'',
     MI_EquipmentName = Some ''Treadmill #3'', MI_ReportedDate = 90,
     MI_Priority = Some ''High'', MI_Status = Some ''In Progress'',
     MI_AssignedRepairDate = Some 103, MI_ResolutionDate = None,
     MI_ResolutionNotes = None\<rparr>"

definition ex_db :: db where
  "ex_db = \<lparr>Member_table = [ex_member], Trainer_table = [ex_trainer],
     AdminStaff_table = [ex_admin], Room_table = [ex_room, ex_room2],
     Session_table = [ex_session], HealthMetric_table = [], FitnessGoal_table = [],
     Invoice_table = [ex_invoice], MaintenanceIssue_table = [ex_issue], Member_dirty = []\<rparr>"

definition ex_db_resolved :: db where
  \<comment> \<open>the same store once the issue has been moved to \<open>Resolved\<close>\<close>
  "ex_db_resolved = ex_db\<lparr>MaintenanceIssue_table := [ex_issue\<lparr>MI_Status := Some ''Resolved''\<rparr>]\<rparr>"







section \<open>Facts about the helpers\<close>

lemmas ex_defs = ex_db_def ex_db_resolved_def ex_member_def ex_trainer_def ex_admin_def ex_room_def
  ex_room2_def ex_session_def ex_invoice_def ex_issue_def


section \<open>Scheduling a session\<close>


text \<open>
  C10.  A call with session type \<open>Group Class\<close> is rejected with an input error unless
  \<open>max_capacity\<close> is supplied, positive and at most 100.  The store, and so the capacity
  of the room, is arbitrary: the bound of 100 does not depend on it.
\<close>

theorem C10_group_class_capacity_limit:
  assumes "session_type = ''Group Class''"
      and "\<not> (\<exists>c. max_capacity = Some c \<and> 0 < c \<and> c \<le> 100)"
  shows "\<exists>msg. schedule_pt_session today s member_id trainer_id session_date start_time end_time
           room_id session_type duration_minutes max_capacity notes = (Inl (Invalid_Input msg), s)"
  using assms unfolding schedule_pt_session_def
  by (cases max_capacity) (auto simp: provided_def)

text \<open>
  C10 at a concrete call: a group class of 150 places in room 1, whose capacity is 200.
\<close>

theorem C10_group_class_capacity_limit_witness:
  "''Group Class'' = ''Group Class'' \<and> \<not> (\<exists>c. Some (150::int) = Some c \<and> 0 < c \<and> c \<le> 100)
   \<and> R_RoomCapacity ex_room = Some 200
   \<and> (\<exists>msg. schedule_pt_session 100 ex_db 1 1 101 36000000000 39600000000 (Some 1) ''Group Class''
          None (Some 150) None = (Inl (Invalid_Input msg), ex_db))"
  using C10_group_class_capacity_limit [of "''Group Class''" "Some 150" 100 ex_db 1 1 101
          36000000000 39600000000 "Some 1" None None]
  by (simp add: ex_room_def)




section \<open>Maintenance issues\<close>

text \<open>
  What a call of \<open>update_maintenance_status\<close> returns: a failure leaves the session as it
  was; a success has passed the status guards and the date checks, and rewrites the row.
\<close>

lemma update_maintenance_status_result:
  "(r, s') = update_maintenance_status today s issue_id status assigned_repair_date
               resolution_date resolution_notes \<longrightarrow>
   (case r of
      Inl e \<Rightarrow> s' = s
    | Inr i \<Rightarrow>
        (\<exists>issue. find (\<lambda>i. MI_IssueID i = issue_id) (MaintenanceIssue_table s) = Some issue
           \<and> MI_Status i = (if truthy_str status then status else MI_Status issue)
           \<and> (truthy_str status \<longrightarrow>
                 the status \<in> set [''Open'', ''In Progress'', ''Resolved'', ''Closed'']
                 \<and> (MI_Status issue = Some ''Closed'' \<longrightarrow> the status = ''Closed'')
                 \<and> (MI_Status issue = Some ''Resolved'' \<longrightarrow>
                       the status \<in> set [''Resolved'', ''Closed'']))
           \<and> (\<forall>d. resolution_date = Some d \<longrightarrow>
                 MI_Status issue \<in> set [Some ''Resolved'', Some ''Closed'']
                 \<and> MI_ReportedDate issue \<le> d \<and> d \<le> today
                 \<and> (\<forall>a. assigned_repair_date = Some a \<longrightarrow> a \<le> d)
                 \<and> MI_ResolutionDate i = Some d)
           \<and> s' = commit (s\<lparr>MaintenanceIssue_table :=
                               map (\<lambda>x. if MI_IssueID x = issue_id then i else x)
                                   (MaintenanceIssue_table s)\<rparr>)))"
  by (simp add: update_maintenance_status_def Let_def provided_def split: option.split)

text \<open>
  C3, as the claim states it, fails: the status order is not enforced.  An issue that is
  \<open>In Progress\<close> is moved back to \<open>Open\<close> by a successful call.
\<close>

theorem C3_status_counterexample:
  "MI_Status ex_issue = Some ''In Progress''
   \<and> fst (update_maintenance_status 100 ex_db 1 (Some ''Open'') None None None)
       = Inr (ex_issue\<lparr>MI_Status := Some ''Open''\<rparr>)"
  by (simp add: update_maintenance_status_def ex_defs truthy_str_def provided_def Let_def)

text \<open>
  C3, amended.  A successful call that supplies a non-empty target status stores that
  status, which is one of the four; from \<open>Closed\<close> only \<open>Closed\<close> is accepted and from
  \<open>Resolved\<close> only \<open>Resolved\<close> or \<open>Closed\<close>.  From any other status (\<open>Open\<close>,
  \<open>In Progress\<close>) a call that supplies only the status is accepted for each of the four
  targets, the backward ones included.
\<close>

theorem C3_status_guards:
  assumes "find (\<lambda>i. MI_IssueID i = issue_id) (MaintenanceIssue_table s) = Some issue"
      and "t \<noteq> []"
  shows "(fst (update_maintenance_status today s issue_id (Some t) assigned_repair_date
                 resolution_date resolution_notes) = Inr i \<longrightarrow>
            MI_Status i = Some t
            \<and> t \<in> set [''Open'', ''In Progress'', ''Resolved'', ''Closed'']
            \<and> (MI_Status issue = Some ''Closed'' \<longrightarrow> t = ''Closed'')
            \<and> (MI_Status issue = Some ''Resolved'' \<longrightarrow> t = ''Resolved'' \<or> t = ''Closed''))
       \<and> (0 < issue_id \<and> t \<in> set [''Open'', ''In Progress'', ''Resolved'', ''Closed'']
            \<and> MI_Status issue \<noteq> Some ''Closed'' \<and> MI_Status issue \<noteq> Some ''Resolved'' \<longrightarrow>
            fst (update_maintenance_status today s issue_id (Some t) None None None)
              = Inr (issue\<lparr>MI_Status := Some t\<rparr>))"
proof (intro conjI impI)
  assume ok: "fst (update_maintenance_status today s issue_id (Some t) assigned_repair_date
                 resolution_date resolution_notes) = Inr i"
  have "(Inr i, snd (update_maintenance_status today s issue_id (Some t) assigned_repair_date
                 resolution_date resolution_notes))
        = update_maintenance_status today s issue_id (Some t) assigned_repair_date
                 resolution_date resolution_notes"
    using ok by (metis prod.collapse)
  from update_maintenance_status_result [rule_format, OF this] assms
  have r: "MI_Status i = Some t \<and> t \<in> set [''Open'', ''In Progress'', ''Resolved'', ''Closed'']
           \<and> (MI_Status issue = Some ''Closed'' \<longrightarrow> t = ''Closed'')
           \<and> (MI_Status issue = Some ''Resolved'' \<longrightarrow> t \<in> set [''Resolved'', ''Closed''])"
    by (auto simp: truthy_str_def)
  from r show "MI_Status i = Some t" by simp
  from r show "t \<in> set [''Open'', ''In Progress'', ''Resolved'', ''Closed'']" by simp
  from r show "MI_Status issue = Some ''Closed'' \<Longrightarrow> t = ''Closed''" by simp
  from r show "MI_Status issue = Some ''Resolved'' \<Longrightarrow> t = ''Resolved'' \<or> t = ''Closed''" by simp
next
  assume "0 < issue_id \<and> t \<in> set [''Open'', ''In Progress'', ''Resolved'', ''Closed'']
            \<and> MI_Status issue \<noteq> Some ''Closed'' \<and> MI_Status issue \<noteq> Some ''Resolved''"
  with assms show "fst (update_maintenance_status today s issue_id (Some t) None None None)
              = Inr (issue\<lparr>MI_Status := Some t\<rparr>)"
    by (simp add: update_maintenance_status_def Let_def provided_def truthy_str_def)
qed

text \<open>
  C3, amended, at concrete calls: a resolved issue is closed, and cannot be reopened.
\<close>

theorem C3_status_guards_witness:
  "find (\<lambda>i. MI_IssueID i = 1) (MaintenanceIssue_table ex_db_resolved)
     = Some (ex_issue\<lparr>MI_Status := Some ''Resolved''\<rparr>)
   \<and> ''Closed'' \<noteq> []
   \<and> fst (update_maintenance_status 100 ex_db_resolved 1 (Some ''Closed'') None None None)
       = Inr (ex_issue\<lparr>MI_Status := Some ''Closed''\<rparr>)
   \<and> (\<exists>e. fst (update_maintenance_status 100 ex_db_resolved 1 (Some ''Open'') None None None)
            = Inl e)"
proof -
  have f: "find (\<lambda>i. MI_IssueID i = 1) (MaintenanceIssue_table ex_db_resolved)
             = Some (ex_issue\<lparr>MI_Status := Some ''Resolved''\<rparr>)"
    by (simp add: ex_defs)
  have ok: "fst (update_maintenance_status 100 ex_db_resolved 1 (Some ''Closed'') None None None)
              = Inr (ex_issue\<lparr>MI_Status := Some ''Closed''\<rparr>)"
    by (simp add: update_maintenance_status_def ex_defs truthy_str_def provided_def Let_def)
  have n1: "''Closed'' \<noteq> []" and n2: "''Open'' \<noteq> []" by simp_all
  have "\<not> (\<exists>i. fst (update_maintenance_status 100 ex_db_resolved 1 (Some ''Open'') None None None)
                  = Inr i)"
    using C3_status_guards [OF f n2, of 100 None None None] by (auto simp: ex_defs)
  then have "\<exists>e. fst (update_maintenance_status 100 ex_db_resolved 1 (Some ''Open'') None None None)
                  = Inl e"
    by (cases "fst (update_maintenance_status 100 ex_db_resolved 1 (Some ''Open'') None None None)")
       auto
  with f ok n1 C3_status_guards [OF f n1, of 100 None None None] show ?thesis
    by blast
qed

text \<open>
  C7, as the claim states it, fails: the assigned-repair date stored on the issue is not
  compared.  The issue has its repair assigned for day 103; on day 100 a resolution date
  of day 100 is accepted (the sequence of \<open>example_presentation.py\<close>: repair assigned
  three days ahead, then resolved today).
\<close>

theorem C7_resolution_counterexample:
  "MI_AssignedRepairDate (ex_issue\<lparr>MI_Status := Some ''Resolved''\<rparr>) = Some 103
   \<and> find (\<lambda>i. MI_IssueID i = 1) (MaintenanceIssue_table ex_db_resolved)
       = Some (ex_issue\<lparr>MI_Status := Some ''Resolved''\<rparr>)
   \<and> fst (update_maintenance_status 100 ex_db_resolved 1 None None (Some 100) None)
       = Inr (ex_issue\<lparr>MI_Status := Some ''Resolved'', MI_ResolutionDate := Some 100\<rparr>)
   \<and> (100::int) < 103"
  by (simp add: update_maintenance_status_def ex_defs truthy_str_def provided_def Let_def)

text \<open>
  C7, amended.  A resolution date is accepted only when the stored status of the issue is
  \<open>Resolved\<close> or \<open>Closed\<close>, the date is not before the reported date and not after
  today, and, when an assigned-repair date is supplied in the same call, the date is not
  before it; otherwise the call fails and changes nothing.
\<close>

theorem C7_resolution_date_rules:
  assumes "find (\<lambda>i. MI_IssueID i = issue_id) (MaintenanceIssue_table s) = Some issue"
  shows "(fst (update_maintenance_status today s issue_id status assigned_repair_date (Some d)
                 resolution_notes) = Inr i \<longrightarrow>
            (MI_Status issue = Some ''Resolved'' \<or> MI_Status issue = Some ''Closed'')
            \<and> MI_ReportedDate issue \<le> d \<and> d \<le> today
            \<and> (\<forall>a. assigned_repair_date = Some a \<longrightarrow> a \<le> d)
            \<and> MI_ResolutionDate i = Some d)
       \<and> (\<not> ((MI_Status issue = Some ''Resolved'' \<or> MI_Status issue = Some ''Closed'')
               \<and> MI_ReportedDate issue \<le> d \<and> d \<le> today
               \<and> (\<forall>a. assigned_repair_date = Some a \<longrightarrow> a \<le> d)) \<longrightarrow>
            (\<exists>e. update_maintenance_status today s issue_id status assigned_repair_date (Some d)
                    resolution_notes = (Inl e, s)))"
proof -
  let ?call = "update_maintenance_status today s issue_id status assigned_repair_date (Some d)
                 resolution_notes"
  have ok: "(MI_Status issue = Some ''Resolved'' \<or> MI_Status issue = Some ''Closed'')
            \<and> MI_ReportedDate issue \<le> d \<and> d \<le> today
            \<and> (\<forall>a. assigned_repair_date = Some a \<longrightarrow> a \<le> d)
            \<and> MI_ResolutionDate i = Some d" if "fst ?call = Inr i" for i
  proof -
    have "(Inr i, snd ?call) = ?call" using that by (metis prod.collapse)
    from update_maintenance_status_result [rule_format, OF this] assms show ?thesis
      by auto
  qed
  have bad: "\<exists>e. ?call = (Inl e, s)" if no: "\<And>i. fst ?call \<noteq> Inr i"
  proof -
    obtain e where e: "fst ?call = Inl e"
      using no by (cases "fst ?call") auto
    then have "(Inl e, snd ?call) = ?call" by (metis prod.collapse)
    from update_maintenance_status_result [rule_format, OF this] have "snd ?call = s" by simp
    with e show ?thesis by (metis prod.collapse)
  qed
  show ?thesis
    using ok bad by blast
qed

text \<open>
  C7, amended, at concrete calls: with a repair date of day 105 supplied in the call,
  a resolution on day 106 is accepted and one on day 104 is refused.
\<close>

theorem C7_resolution_date_rules_witness:
  "find (\<lambda>i. MI_IssueID i = 1) (MaintenanceIssue_table ex_db_resolved)
     = Some (ex_issue\<lparr>MI_Status := Some ''Resolved''\<rparr>)
   \<and> fst (update_maintenance_status 110 ex_db_resolved 1 None (Some 105) (Some 106) None)
       = Inr (ex_issue\<lparr>MI_Status := Some ''Resolved'', MI_AssignedRepairDate := Some 105,
                       MI_ResolutionDate := Some 106\<rparr>)
   \<and> (\<exists>e. update_maintenance_status 110 ex_db_resolved 1 None (Some 105) (Some 104) None
            = (Inl e, ex_db_resolved))"
proof -
  have f: "find (\<lambda>i. MI_IssueID i = 1) (MaintenanceIssue_table ex_db_resolved)
             = Some (ex_issue\<lparr>MI_Status := Some ''Resolved''\<rparr>)"
    by (simp add: ex_defs)
  have ok: "fst (update_maintenance_status 110 ex_db_resolved 1 None (Some 105) (Some 106) None)
       = Inr (ex_issue\<lparr>MI_Status := Some ''Resolved'', MI_AssignedRepairDate := Some 105,
                       MI_ResolutionDate := Some 106\<rparr>)"
    by (simp add: update_maintenance_status_def ex_defs truthy_str_def provided_def Let_def)
  have "\<exists>e. update_maintenance_status 110 ex_db_resolved 1 None (Some 105) (Some 104) None
            = (Inl e, ex_db_resolved)"
    using C7_resolution_date_rules [OF f, of 110 None "Some 105" 104 None] by simp
  with f ok show ?thesis by blast
qed

section \<open>Invoices\<close>

lemma find_SomeD: "find P xs = Some x \<Longrightarrow> P x \<and> x \<in> set xs"
  by (induction xs) (auto split: if_splits)






section \<open>Assigning a room\<close>

text \<open>
  What a call of \<open>assign_room_booking\<close> returns: a failure leaves the session as it was,
  and a booking conflict names a row found by the scan, which skips the session being
  modified; a success sets the room of that session.
\<close>

lemma assign_room_booking_result:
  "(r, s') = assign_room_booking today s session_id room_id \<longrightarrow>
   (case r of
      Inl e \<Rightarrow>
        s' = s
        \<and> (\<forall>cid st d. e = Room_Booked cid st d \<longrightarrow>
             (\<exists>session c.
                find (\<lambda>x. S_SessionID x = session_id) (Session_table s) = Some session
                \<and> find (\<lambda>x. S_RoomID x = Some room_id \<and> S_SessionDate x = S_SessionDate session
                             \<and> S_StartTime x < S_EndTime session
                             \<and> S_EndTime x > S_StartTime session
                             \<and> S_SessionID x \<noteq> session_id) (Session_table s) = Some c
                \<and> cid = S_SessionID c))
    | Inr x \<Rightarrow>
        (\<exists>session.
           find (\<lambda>x. S_SessionID x = session_id) (Session_table s) = Some session
           \<and> S_RoomID session \<noteq> Some room_id
           \<and> x = session\<lparr>S_RoomID := Some room_id\<rparr>
           \<and> s' = commit (s\<lparr>Session_table :=
                 map (\<lambda>x. if S_SessionID x = session_id then x\<lparr>S_RoomID := Some room_id\<rparr> else x)
                     (Session_table s)\<rparr>)))"
  by (simp add: assign_room_booking_def split: option.split)

lemma assign_room_booking_same_room:
  assumes "find (\<lambda>x. S_SessionID x = session_id) (Session_table s) = Some session"
      and "S_RoomID session = Some room_id"
  shows "\<exists>e. assign_room_booking today s session_id room_id = (Inl e, s)
           \<and> (0 < session_id \<and> 0 < room_id \<and> today \<le> S_SessionDate session
                \<and> find (\<lambda>r. R_RoomID r = room_id) (Room_table s) \<noteq> None
                \<longrightarrow> e = Room_Already_Assigned room_id)"
  using assms by (auto simp: assign_room_booking_def split: option.split)

lemma assign_room_booking_no_other:
  assumes "find (\<lambda>x. S_SessionID x = session_id) (Session_table s) = Some session"
      and "\<forall>y \<in> set (Session_table s).
             S_RoomID y = Some room_id \<and> S_SessionDate y = S_SessionDate session
             \<and> S_StartTime y < S_EndTime session \<and> S_EndTime y > S_StartTime session
             \<longrightarrow> S_SessionID y = session_id"
  shows "fst (assign_room_booking today s session_id room_id) \<noteq> Inl (Room_Booked cid st d)"
proof
  assume e: "fst (assign_room_booking today s session_id room_id) = Inl (Room_Booked cid st d)"
  have "(Inl (Room_Booked cid st d), snd (assign_room_booking today s session_id room_id))
          = assign_room_booking today s session_id room_id"
    using e by (metis prod.collapse)
  from assign_room_booking_result [rule_format, OF this] assms(1)
  obtain c where
    "find (\<lambda>x. S_RoomID x = Some room_id \<and> S_SessionDate x = S_SessionDate session
                \<and> S_StartTime x < S_EndTime session \<and> S_EndTime x > S_StartTime session
                \<and> S_SessionID x \<noteq> session_id) (Session_table s) = Some c"
    by auto
  from find_SomeD [OF this] assms(2) show False
    by blast
qed

text \<open>
  C9.  For an existing session: assigning the room it already has is an error and changes
  nothing (the "already assigned" error, once the identifiers are positive, the session is
  not in the past and the room exists); a booking conflict never names the session being
  modified, but another session booked in that room at an overlapping time on the same
  date; and when no other such session exists, no booking conflict is reported.
\<close>

theorem C9_assign_room_same_room_and_self:
  assumes "find (\<lambda>x. S_SessionID x = session_id) (Session_table s) = Some session"
  shows "(S_RoomID session = Some room_id \<longrightarrow>
            (\<exists>e. assign_room_booking today s session_id room_id = (Inl e, s)
               \<and> (0 < session_id \<and> 0 < room_id \<and> today \<le> S_SessionDate session
                    \<and> find (\<lambda>r. R_RoomID r = room_id) (Room_table s) \<noteq> None
                    \<longrightarrow> e = Room_Already_Assigned room_id)))
       \<and> (\<forall>cid st d. fst (assign_room_booking today s session_id room_id)
                        = Inl (Room_Booked cid st d) \<longrightarrow>
             cid \<noteq> session_id
             \<and> (\<exists>c \<in> set (Session_table s).
                  S_SessionID c = cid \<and> S_RoomID c = Some room_id
                  \<and> S_SessionDate c = S_SessionDate session
                  \<and> S_StartTime c < S_EndTime session \<and> S_EndTime c > S_StartTime session))
       \<and> ((\<forall>y \<in> set (Session_table s).
              S_RoomID y = Some room_id \<and> S_SessionDate y = S_SessionDate session
              \<and> S_StartTime y < S_EndTime session \<and> S_EndTime y > S_StartTime session
              \<longrightarrow> S_SessionID y = session_id) \<longrightarrow>
           (\<forall>cid st d. fst (assign_room_booking today s session_id room_id)
                          \<noteq> Inl (Room_Booked cid st d)))"
proof (intro conjI impI allI)
  assume "S_RoomID session = Some room_id"
  from assign_room_booking_same_room [OF assms this]
  show "\<exists>e. assign_room_booking today s session_id room_id = (Inl e, s)
           \<and> (0 < session_id \<and> 0 < room_id \<and> today \<le> S_SessionDate session
                \<and> find (\<lambda>r. R_RoomID r = room_id) (Room_table s) \<noteq> None
                \<longrightarrow> e = Room_Already_Assigned room_id)" .
next
  fix cid st d
  assume e: "fst (assign_room_booking today s session_id room_id) = Inl (Room_Booked cid st d)"
  have "(Inl (Room_Booked cid st d), snd (assign_room_booking today s session_id room_id))
          = assign_room_booking today s session_id room_id"
    using e by (metis prod.collapse)
  from assign_room_booking_result [rule_format, OF this] assms
  obtain c where
    c: "find (\<lambda>x. S_RoomID x = Some room_id \<and> S_SessionDate x = S_SessionDate session
                \<and> S_StartTime x < S_EndTime session \<and> S_EndTime x > S_StartTime session
                \<and> S_SessionID x \<noteq> session_id) (Session_table s) = Some c"
    and cid: "cid = S_SessionID c"
    by auto
  from find_SomeD [OF c] cid show "cid \<noteq> session_id" by simp
  from find_SomeD [OF c] cid
  show "\<exists>c \<in> set (Session_table s).
          S_SessionID c = cid \<and> S_RoomID c = Some room_id
          \<and> S_SessionDate c = S_SessionDate session
          \<and> S_StartTime c < S_EndTime session \<and> S_EndTime c > S_StartTime session"
    by blast
next
  fix cid st d
  assume "\<forall>y \<in> set (Session_table s).
              S_RoomID y = Some room_id \<and> S_SessionDate y = S_SessionDate session
              \<and> S_StartTime y < S_EndTime session \<and> S_EndTime y > S_StartTime session
              \<longrightarrow> S_SessionID y = session_id"
  from assign_room_booking_no_other [OF assms this]
  show "fst (assign_room_booking today s session_id room_id) \<noteq> Inl (Room_Booked cid st d)" .
qed

text \<open>
  C9 at concrete calls: session 1 is in room 1; assigning room 1 again is refused,
  assigning room 2 succeeds.
\<close>

theorem C9_assign_room_same_room_and_self_witness:
  "find (\<lambda>x. S_SessionID x = 1) (Session_table ex_db) = Some ex_session
   \<and> S_RoomID ex_session = Some 1
   \<and> assign_room_booking 100 ex_db 1 1 = (Inl (Room_Already_Assigned 1), ex_db)
   \<and> fst (assign_room_booking 100 ex_db 1 2) = Inr (ex_session\<lparr>S_RoomID := Some 2\<rparr>)"
proof -
  have f: "find (\<lambda>x. S_SessionID x = 1) (Session_table ex_db) = Some ex_session"
    by (simp add: ex_defs)
  have r: "S_RoomID ex_session = Some 1"
    by (simp add: ex_defs)
  have g: "(0::int) < 1 \<and> (0::int) < 1 \<and> (100::int) \<le> S_SessionDate ex_session
           \<and> find (\<lambda>r. R_RoomID r = 1) (Room_table ex_db) \<noteq> None"
    by (simp add: ex_defs)
  have a: "assign_room_booking 100 ex_db 1 1 = (Inl (Room_Already_Assigned 1), ex_db)"
    using C9_assign_room_same_room_and_self [OF f, of 1 100] r g by auto
  have b: "fst (assign_room_booking 100 ex_db 1 2) = Inr (ex_session\<lparr>S_RoomID := Some 2\<rparr>)"
    by (simp add: assign_room_booking_def ex_defs truthy_int_def)
  from f r a b show ?thesis by blast
qed

section \<open>The trainer's other sessions\<close>

text \<open>
  A trainer conflict is reported exactly for the first row found by the scan of the
  trainer's sessions on that date with the strict overlap test.
\<close>

lemma schedule_pt_session_conflict_source:
  "(r, s') = schedule_pt_session today s member_id trainer_id session_date start_time end_time
          room_id session_type duration_minutes max_capacity notes \<longrightarrow>
   (\<forall>i a b. r = Inl (Trainer_Conflict i a b) \<longrightarrow>
      (\<exists>c. find (\<lambda>x. S_TrainerID x = trainer_id \<and> S_SessionDate x = session_date
                     \<and> S_StartTime x < end_time \<and> S_EndTime x > start_time) (Session_table s)
             = Some c
           \<and> i = S_SessionID c \<and> a = S_StartTime c \<and> b = S_EndTime c))"
  by (simp add: schedule_pt_session_def Let_def split: option.split)

lemma schedule_pt_session_trainer_busy:
  assumes "find (\<lambda>x. S_TrainerID x = trainer_id \<and> S_SessionDate x = session_date
                     \<and> S_StartTime x < end_time \<and> S_EndTime x > start_time) (Session_table s)
             = Some c"
  shows "\<exists>e. schedule_pt_session today s member_id trainer_id session_date start_time end_time
                room_id session_type duration_minutes max_capacity notes = (Inl e, s)
           \<and> (0 < member_id \<and> 0 < trainer_id \<and> (\<forall>r. room_id = Some r \<longrightarrow> 0 < r)
                \<and> today \<le> session_date \<and> session_date - today \<le> 365
                \<and> start_time < end_time
                \<and> 15 \<le> duration_mins start_time end_time
                \<and> duration_mins start_time end_time \<le> 480
                \<and> session_type \<in> set [''Personal Training'', ''Group Class'']
                \<and> (session_type = ''Group Class'' \<longrightarrow>
                      (\<exists>n. max_capacity = Some n \<and> 0 < n \<and> n \<le> 100))
                \<and> find (\<lambda>m. M_MemberID m = member_id) (Member_table s) \<noteq> None
                \<and> find (\<lambda>t. T_TrainerID t = trainer_id) (Trainer_table s) \<noteq> None
                \<and> (\<forall>r. room_id = Some r \<longrightarrow>
                      (\<exists>room. find (\<lambda>x. R_RoomID x = r) (Room_table s) = Some room
                         \<and> (session_type = ''Group Class'' \<longrightarrow>
                               (\<forall>cap. R_RoomCapacity room = Some cap \<longrightarrow>
                                  cap = 0 \<or> the max_capacity \<le> cap))))
              \<longrightarrow> e = Trainer_Conflict (S_SessionID c) (S_StartTime c) (S_EndTime c))"
  using assms
  by (cases room_id)
     (auto simp: schedule_pt_session_def Let_def provided_def truthy_int_def
           split: option.split)

text \<open>
  C1.  Let the trainer have a session \<open>c\<close> on the requested date.  If \<open>c\<close> overlaps the
  requested interval under the strict test, the call fails and writes nothing; when the
  request passes the checks made before the scan (well-formed arguments, existing member,
  trainer and room, capacity within the room's), the failure is the trainer conflict,
  which carries the id and the interval of an overlapping session of that trainer.  If
  every session of the trainer on that date ends no later than the requested start or
  starts no earlier than the requested end (touching intervals included), no trainer
  conflict is reported.
\<close>

theorem C1_trainer_overlap_rejected:
  assumes "c \<in> set (Session_table s)"
      and "S_TrainerID c = trainer_id" and "S_SessionDate c = session_date"
  shows "(S_StartTime c < end_time \<and> S_EndTime c > start_time \<longrightarrow>
            (\<exists>e. schedule_pt_session today s member_id trainer_id session_date start_time
                    end_time room_id session_type duration_minutes max_capacity notes = (Inl e, s)
               \<and> (0 < member_id \<and> 0 < trainer_id \<and> (\<forall>r. room_id = Some r \<longrightarrow> 0 < r)
                    \<and> today \<le> session_date \<and> session_date - today \<le> 365
                    \<and> start_time < end_time
                    \<and> 15 \<le> duration_mins start_time end_time
                    \<and> duration_mins start_time end_time \<le> 480
                    \<and> session_type \<in> set [''Personal Training'', ''Group Class'']
                    \<and> (session_type = ''Group Class'' \<longrightarrow>
                          (\<exists>n. max_capacity = Some n \<and> 0 < n \<and> n \<le> 100))
                    \<and> find (\<lambda>m. M_MemberID m = member_id) (Member_table s) \<noteq> None
                    \<and> find (\<lambda>t. T_TrainerID t = trainer_id) (Trainer_table s) \<noteq> None
                    \<and> (\<forall>r. room_id = Some r \<longrightarrow>
                          (\<exists>room. find (\<lambda>x. R_RoomID x = r) (Room_table s) = Some room
                             \<and> (session_type = ''Group Class'' \<longrightarrow>
                                   (\<forall>cap. R_RoomCapacity room = Some cap \<longrightarrow>
                                      cap = 0 \<or> the max_capacity \<le> cap))))
                  \<longrightarrow> (\<exists>x \<in> set (Session_table s).
                         S_TrainerID x = trainer_id \<and> S_SessionDate x = session_date
                         \<and> S_StartTime x < end_time \<and> S_EndTime x > start_time
                         \<and> e = Trainer_Conflict (S_SessionID x) (S_StartTime x) (S_EndTime x)))))
       \<and> ((\<forall>x \<in> set (Session_table s).
              S_TrainerID x = trainer_id \<and> S_SessionDate x = session_date \<longrightarrow>
              S_EndTime x \<le> start_time \<or> end_time \<le> S_StartTime x) \<longrightarrow>
           (\<forall>i a b. fst (schedule_pt_session today s member_id trainer_id session_date start_time
                            end_time room_id session_type duration_minutes max_capacity notes)
                      \<noteq> Inl (Trainer_Conflict i a b)))"
proof (intro conjI impI allI)
  let ?call = "schedule_pt_session today s member_id trainer_id session_date start_time
                 end_time room_id session_type duration_minutes max_capacity notes"
  let ?P = "\<lambda>x. S_TrainerID x = trainer_id \<and> S_SessionDate x = session_date
                 \<and> S_StartTime x < end_time \<and> S_EndTime x > start_time"
  let ?G = "0 < member_id \<and> 0 < trainer_id \<and> (\<forall>r. room_id = Some r \<longrightarrow> 0 < r)
                    \<and> today \<le> session_date \<and> session_date - today \<le> 365
                    \<and> start_time < end_time
                    \<and> 15 \<le> duration_mins start_time end_time
                    \<and> duration_mins start_time end_time \<le> 480
                    \<and> session_type \<in> set [''Personal Training'', ''Group Class'']
                    \<and> (session_type = ''Group Class'' \<longrightarrow>
                          (\<exists>n. max_capacity = Some n \<and> 0 < n \<and> n \<le> 100))
                    \<and> find (\<lambda>m. M_MemberID m = member_id) (Member_table s) \<noteq> None
                    \<and> find (\<lambda>t. T_TrainerID t = trainer_id) (Trainer_table s) \<noteq> None
                    \<and> (\<forall>r. room_id = Some r \<longrightarrow>
                          (\<exists>room. find (\<lambda>x. R_RoomID x = r) (Room_table s) = Some room
                             \<and> (session_type = ''Group Class'' \<longrightarrow>
                                   (\<forall>cap. R_RoomCapacity room = Some cap \<longrightarrow>
                                      cap = 0 \<or> the max_capacity \<le> cap))))"
  assume "S_StartTime c < end_time \<and> S_EndTime c > start_time"
  with assms have "\<exists>x \<in> set (Session_table s). ?P x" by blast
  then have "find ?P (Session_table s) \<noteq> None"
    unfolding find_None_iff by blast
  then obtain x where x: "find ?P (Session_table s) = Some x" by blast
  from find_SomeD [OF x] have px: "?P x \<and> x \<in> set (Session_table s)" .
  have "\<exists>e. ?call = (Inl e, s)
          \<and> (?G \<longrightarrow> e = Trainer_Conflict (S_SessionID x) (S_StartTime x) (S_EndTime x))"
    by (rule schedule_pt_session_trainer_busy [OF x])
  then obtain e where e1: "?call = (Inl e, s)"
    and e2: "?G \<longrightarrow> e = Trainer_Conflict (S_SessionID x) (S_StartTime x) (S_EndTime x)"
    by (elim exE conjE)
  have h: "?G \<longrightarrow> (\<exists>x \<in> set (Session_table s). S_TrainerID x = trainer_id \<and> S_SessionDate x = session_date
                      \<and> S_StartTime x < end_time \<and> S_EndTime x > start_time
                      \<and> e = Trainer_Conflict (S_SessionID x) (S_StartTime x) (S_EndTime x))"
  proof (rule impI)
    assume g: ?G
    from e2 g have "e = Trainer_Conflict (S_SessionID x) (S_StartTime x) (S_EndTime x)"
      by (rule mp)
    with px show "\<exists>x \<in> set (Session_table s). S_TrainerID x = trainer_id \<and> S_SessionDate x = session_date
                      \<and> S_StartTime x < end_time \<and> S_EndTime x > start_time
                      \<and> e = Trainer_Conflict (S_SessionID x) (S_StartTime x) (S_EndTime x)"
      by blast
  qed
  show "\<exists>e. ?call = (Inl e, s)
          \<and> (?G \<longrightarrow> (\<exists>x \<in> set (Session_table s). S_TrainerID x = trainer_id \<and> S_SessionDate x = session_date
                      \<and> S_StartTime x < end_time \<and> S_EndTime x > start_time
                      \<and> e = Trainer_Conflict (S_SessionID x) (S_StartTime x) (S_EndTime x)))"
    by (rule exI [where x = e], rule conjI [OF e1 h])
next
  fix i a b
  let ?call = "schedule_pt_session today s member_id trainer_id session_date start_time
                 end_time room_id session_type duration_minutes max_capacity notes"
  let ?P = "\<lambda>x. S_TrainerID x = trainer_id \<and> S_SessionDate x = session_date
                 \<and> S_StartTime x < end_time \<and> S_EndTime x > start_time"
  assume apart: "\<forall>x \<in> set (Session_table s).
              S_TrainerID x = trainer_id \<and> S_SessionDate x = session_date \<longrightarrow>
              S_EndTime x \<le> start_time \<or> end_time \<le> S_StartTime x"
  show "fst ?call \<noteq> Inl (Trainer_Conflict i a b)"
  proof
    assume e: "fst ?call = Inl (Trainer_Conflict i a b)"
    have "(Inl (Trainer_Conflict i a b), snd ?call) = ?call"
      using e by (metis prod.collapse)
    from schedule_pt_session_conflict_source [rule_format, OF this]
    obtain x where "find ?P (Session_table s) = Some x"
      by blast
    from find_SomeD [OF this] have px: "?P x \<and> x \<in> set (Session_table s)" .
    with apart have "S_EndTime x \<le> start_time \<or> end_time \<le> S_StartTime x"
      by blast
    with px show False by auto
  qed
qed

text \<open>
  C1 at concrete calls: the trainer is booked from 10:00 to 11:00; 10:30 to 11:30 is
  refused with the conflict naming session 1, and 11:00 to 12:00 is scheduled.
\<close>

theorem C1_trainer_overlap_rejected_witness:
  "ex_session \<in> set (Session_table ex_db)
   \<and> S_TrainerID ex_session = 1 \<and> S_SessionDate ex_session = 100
   \<and> S_StartTime ex_session = 36000000000 \<and> S_EndTime ex_session = 39600000000
   \<and> schedule_pt_session 100 ex_db 1 1 100 37800000000 41400000000 None ''Personal Training''
       None None None = (Inl (Trainer_Conflict 1 36000000000 39600000000), ex_db)
   \<and> (\<forall>i a b. fst (schedule_pt_session 100 ex_db 1 1 100 39600000000 43200000000 None
                      ''Personal Training'' None None None) \<noteq> Inl (Trainer_Conflict i a b))
   \<and> (\<exists>n. fst (schedule_pt_session 100 ex_db 1 1 100 39600000000 43200000000 None
                  ''Personal Training'' None None None) = Inr n)"
proof -
  have m: "ex_session \<in> set (Session_table ex_db)" "S_TrainerID ex_session = 1"
    "S_SessionDate ex_session = 100" "S_StartTime ex_session = 36000000000"
    "S_EndTime ex_session = 39600000000"
    by (simp_all add: ex_defs)
  note t = C1_trainer_overlap_rejected [OF m(1) m(2) m(3)]
  have over: "schedule_pt_session 100 ex_db 1 1 100 37800000000 41400000000 None
                ''Personal Training'' None None None
              = (Inl (Trainer_Conflict 1 36000000000 39600000000), ex_db)"
    using t [of 41400000000 37800000000 100 1 None "''Personal Training''" None None None]
    by (auto simp: ex_defs duration_mins_def)
  have touch: "\<forall>i a b. fst (schedule_pt_session 100 ex_db 1 1 100 39600000000 43200000000 None
                      ''Personal Training'' None None None) \<noteq> Inl (Trainer_Conflict i a b)"
    using t [of 43200000000 39600000000 100 1 None "''Personal Training''" None None None]
    by (simp add: ex_defs)
  have ok: "\<exists>n. fst (schedule_pt_session 100 ex_db 1 1 100 39600000000 43200000000 None
                  ''Personal Training'' None None None) = Inr n"
    by (simp add: schedule_pt_session_def ex_defs duration_mins_def truthy_int_def provided_def
          Let_def)
  from m over touch ok show ?thesis by blast
qed

section \<open>Updating a profile\<close>

text \<open>
  \<open>update_profile\<close> checks and assigns field by field.  With a valid first name and a
  blank last name, the first name is assigned to the session's \<open>Member\<close> object before
  the check of the last name raises, and nothing rolls the session back.
\<close>

lemma strip_examples:
  "strip ''Bob'' = ''Bob''" "strip ''  '' = []"
  by code_simp+

lemma update_profile_example:
  "update_profile 100 ex_db 1 (Some ''Bob'') (Some ''  '') None None None None
   = (Inl (Invalid_Input ''Last name cannot be empty.''),
      ex_db\<lparr>Member_dirty := [ex_member\<lparr>M_FirstName := ''Bob''\<rparr>]\<rparr>)"
  by (simp add: update_profile_def load_Member_def flush_Member_def setattr_Member_def
        strip_examples ex_db_def ex_member_def Let_def)

text \<open>
  C4.  The claim is that a failed call leaves every field of every record as it was.
  The code does not do so for \<open>update_profile\<close>: the call below fails, yet the session it
  leaves differs from the one it was given; the member read back through it has the new
  first name; and the next committing call (here \<open>log_health_metric\<close>) writes that
  name to the \<open>Member\<close> table.
\<close>

theorem C4_update_profile_partial_mutation:
  "fst (update_profile 100 ex_db 1 (Some ''Bob'') (Some ''  '') None None None None)
     = Inl (Invalid_Input ''Last name cannot be empty.'')
   \<and> map M_FirstName (Member_table ex_db) = [''Alice'']
   \<and> load_Member ex_db 1 = Some ex_member
   \<and> snd (update_profile 100 ex_db 1 (Some ''Bob'') (Some ''  '') None None None None) \<noteq> ex_db
   \<and> load_Member (snd (update_profile 100 ex_db 1 (Some ''Bob'') (Some ''  '') None None None None)) 1
       = Some (ex_member\<lparr>M_FirstName := ''Bob''\<rparr>)
   \<and> map M_FirstName (Member_table
        (snd (log_health_metric 100
                (snd (update_profile 100 ex_db 1 (Some ''Bob'') (Some ''  '') None None None None))
                1 100 None (Some 70) None None None))) = [''Bob'']"
proof -
  have a: "map M_FirstName (Member_table ex_db) = [''Alice'']"
    by (simp add: ex_db_def ex_member_def)
  have b: "load_Member ex_db 1 = Some ex_member"
    by (simp add: load_Member_def flush_Member_def ex_db_def ex_member_def)
  have c: "ex_db\<lparr>Member_dirty := [ex_member\<lparr>M_FirstName := ''Bob''\<rparr>]\<rparr> \<noteq> ex_db"
  proof
    assume "ex_db\<lparr>Member_dirty := [ex_member\<lparr>M_FirstName := ''Bob''\<rparr>]\<rparr> = ex_db"
    then have "Member_dirty (ex_db\<lparr>Member_dirty := [ex_member\<lparr>M_FirstName := ''Bob''\<rparr>]\<rparr>)
                 = Member_dirty ex_db"
      by (rule arg_cong)
    then show False by (simp add: ex_db_def)
  qed
  have d: "load_Member (ex_db\<lparr>Member_dirty := [ex_member\<lparr>M_FirstName := ''Bob''\<rparr>]\<rparr>) 1
             = Some (ex_member\<lparr>M_FirstName := ''Bob''\<rparr>)"
    by (simp add: load_Member_def flush_Member_def ex_db_def ex_member_def)
  have e: "map M_FirstName (Member_table
        (snd (log_health_metric 100
                (ex_db\<lparr>Member_dirty := [ex_member\<lparr>M_FirstName := ''Bob''\<rparr>]\<rparr>)
                1 100 None (Some 70) None None None))) = [''Bob'']"
    by (simp add: log_health_metric_def provided_def commit_def flush_Member_def
          ex_db_def ex_member_def Let_def)
  show ?thesis
    unfolding update_profile_example using a b c d e by simp
qed


section \<open>Health metrics\<close>


















end
